theory Spec2Isabelle
  imports Main
begin

section \<open>JavaScript values\<close>

text \<open>
  The values the drivers handle: what \<^verbatim>\<open>JSON.parse\<close> returns and \<^verbatim>\<open>JSON.stringify\<close> accepts.
  The type \<open>'n\<close> is the type of JavaScript's numbers, which the model does not fix. An object
  is the list of its properties in enumeration order.
\<close>

datatype 'n json =
    JNull
  | JBool bool
  | JNum 'n
  | JStr string
  | JArr "'n json list"
  | JObj "(string \<times> 'n json) list"

text \<open>
  The decimal text of an integer: an array index used as a property name, and an integer
  written into a text.
\<close>

definition digit_char :: "nat \<Rightarrow> char" where
  "digit_char d = ''0123456789'' ! d"

function show_nat :: "nat \<Rightarrow> string" where
  "show_nat n = (if n < 10 then [digit_char n] else show_nat (n div 10) @ [digit_char (n mod 10)])"
  by pat_completeness auto
termination
  by (relation "measure id") auto

declare show_nat.simps [simp del]

definition show_int :: "int \<Rightarrow> string" where
  "show_int i = (if i < 0 then CHR ''-'' # show_nat (nat (- i)) else show_nat (nat i))"

fun commas :: "string list \<Rightarrow> string" where
  "commas [] = []"
| "commas [x] = x"
| "commas (x # y # zs) = x @ CHR '','' # commas (y # zs)"

definition dquote :: char where
  "dquote = CHR 0x22"

definition bslash :: char where
  "bslash = CHR 0x5C"

text \<open>
  The errors a driver call can end with. \<open>TypeError\<close> is the dereference of a private field
  that is still \<^verbatim>\<open>undefined\<close>, \<open>SyntaxError\<close> is a failing \<^verbatim>\<open>JSON.parse\<close>, \<open>Error\<close> is
  \<^verbatim>\<open>new Error(message)\<close>, and \<open>SqliteError\<close> carries the result code of a rejected statement.
\<close>

datatype sqlite_code = SQLITE_BUSY | SQLITE_CONSTRAINT | SQLITE_ERROR

datatype js_error = TypeError | SyntaxError | Error string | SqliteError sqlite_code

section \<open>The job\<close>

text \<open>
  The job object of \<^verbatim>\<open>types.Job\<close>, as the client hands it to \<^verbatim>\<open>storeJob\<close>; the clock gives
  integer timestamps. A table row of the relational driver has the same columns with the
  payload as text; the job that driver returns has the payload parsed.
\<close>

record 'p job_rec =
  uuid :: string
  queue :: string
  payload :: 'p
  created_at :: int
  reserved_at :: "int option"
  failed_at :: "int option"

type_synonym 'n job = "'n json job_rec"
type_synonym row = "string job_rec"

datatype job_state = Available | Reserved | Failed

definition state_of :: "'p job_rec \<Rightarrow> job_state" where
  "state_of j =
     (if reserved_at j \<noteq> None then Reserved
      else if failed_at j \<noteq> None then Failed
      else Available)"

section \<open>The platform\<close>

text \<open>
  What the drivers call and do not define. Of JavaScript's numbers: the number of an integer
  timestamp, the numbers that are falsy, and the text of a number in a template literal. The
  built-ins \<^verbatim>\<open>JSON.stringify\<close> and \<^verbatim>\<open>JSON.parse\<close>, the latter answering \<open>Inl SyntaxError\<close> where
  it raises. And of SQLite, the row condition it compiles from \<^verbatim>\<open>uuid = "text"\<close> when the text
  between the double quotes is not a plain string (\<open>None\<close> when it compiles none); the
  condition may look at the whole table. All of these are parameters of the model.
\<close>

record 'n platform =
  number_of_int :: "int \<Rightarrow> 'n"
  number_falsy :: "'n \<Rightarrow> bool"
  number_string :: "'n \<Rightarrow> string"
  JSON_stringify :: "'n json \<Rightarrow> string"
  JSON_parse :: "string \<Rightarrow> js_error + 'n json"
  quoted_uuid :: "string \<Rightarrow> (row list \<Rightarrow> row \<Rightarrow> bool) option"

text \<open>Truthiness, as \<^verbatim>\<open>!x\<close>, \<^verbatim>\<open>x ? a : b\<close> and \<^verbatim>\<open>x || y\<close> test it; \<open>None\<close> is \<^verbatim>\<open>undefined\<close>.\<close>

fun truthy :: "'n platform \<Rightarrow> 'n json \<Rightarrow> bool" where
  "truthy E JNull = False"
| "truthy E (JBool b) = b"
| "truthy E (JNum x) = (\<not> number_falsy E x)"
| "truthy E (JStr s) = (s \<noteq> [])"
| "truthy E (JArr xs) = True"
| "truthy E (JObj kvs) = True"

definition truthy_prop :: "'n platform \<Rightarrow> 'n json option \<Rightarrow> bool" where
  "truthy_prop E v = (case v of None \<Rightarrow> False | Some x \<Rightarrow> truthy E x)"

text \<open>String conversion inside a template literal \<^verbatim>\<open>`${x}`\<close>.\<close>

primrec to_string :: "'n platform \<Rightarrow> 'n json \<Rightarrow> string" where
  "to_string E JNull = ''null''"
| "to_string E (JBool b) = (if b then ''true'' else ''false'')"
| "to_string E (JNum x) = number_string E x"
| "to_string E (JStr s) = s"
| "to_string E (JArr xs) =
     commas (map (\<lambda>xs. if fst xs = JNull then [] else snd xs) (zip xs (map (to_string E) xs)))"
| "to_string E (JObj kvs) = ''[object Object]''"

definition template :: "'n platform \<Rightarrow> 'n json option \<Rightarrow> string" where
  "template E v = (case v of None \<Rightarrow> ''undefined'' | Some x \<Rightarrow> to_string E x)"

text \<open>Property read \<^verbatim>\<open>o.k\<close>, property write \<^verbatim>\<open>o.k = v\<close> and object spread \<^verbatim>\<open>{ ...x }\<close>.\<close>

definition field :: "(string \<times> 'n json) list \<Rightarrow> string \<Rightarrow> 'n json option" where
  "field obj k = map_of obj k"

fun set_field :: "string \<Rightarrow> 'n json \<Rightarrow> (string \<times> 'n json) list \<Rightarrow> (string \<times> 'n json) list" where
  "set_field k v [] = [(k, v)]"
| "set_field k v (kv # kvs) = (if fst kv = k then (k, v) # kvs else kv # set_field k v kvs)"


definition spread :: "'n json \<Rightarrow> (string \<times> 'n json) list" where
  "spread v =
     (case v of
        JObj obj \<Rightarrow> obj
      | JArr xs \<Rightarrow> zip (map show_nat [0 ..< length xs]) xs
      | JStr s \<Rightarrow> zip (map show_nat [0 ..< length s]) (map (\<lambda>c. JStr [c]) s)
      | _ \<Rightarrow> [])"



definition timestamp_json :: "'n platform \<Rightarrow> int option \<Rightarrow> 'n json" where
  "timestamp_json E t = (case t of None \<Rightarrow> JNull | Some n \<Rightarrow> JNum (number_of_int E n))"

definition job_object :: "'n platform \<Rightarrow> 'n job \<Rightarrow> (string \<times> 'n json) list" where
  "job_object E j =
     [(''uuid'', JStr (uuid j)), (''queue'', JStr (queue j)), (''payload'', payload j),
      (''created_at'', JNum (number_of_int E (created_at j))),
      (''reserved_at'', timestamp_json E (reserved_at j)),
      (''failed_at'', timestamp_json E (failed_at j))]"

section \<open>The distributed-store driver (RedisDriver.js)\<close>

subsection \<open>The store, its client and the lock service\<close>

text \<open>
  The key space is the list of the keys with their string values, in the order in which
  \<^verbatim>\<open>KEYS\<close> enumerates them. \<^verbatim>\<open>KEYS pattern\<close> matches glob patterns: \<open>*\<close> any run of
  characters, \<open>?\<close> one character, \<open>[...]\<close> a character class with ranges and \<open>^\<close> negation,
  and a backslash takes the next character literally.
\<close>

datatype glob_token = Star | AnyChar | Lit char | Class bool "(nat \<times> nat) list"

definition code :: "char \<Rightarrow> nat" where
  "code c = of_char c"

fun glob_lex :: "string \<Rightarrow> glob_token list"
  and glob_class :: "bool \<Rightarrow> (nat \<times> nat) list \<Rightarrow> string \<Rightarrow> glob_token list"
where
  "glob_lex [] = []"
| "glob_lex (c # r) =
     (if c = CHR ''*'' then Star # glob_lex r
      else if c = CHR ''?'' then AnyChar # glob_lex r
      else if c = bslash then (case r of [] \<Rightarrow> [Lit c] | d # r' \<Rightarrow> Lit d # glob_lex r')
      else if c = CHR ''['' then
        (case r of
           [] \<Rightarrow> glob_class False [] r
         | d # r' \<Rightarrow> if d = CHR ''^'' then glob_class True [] r' else glob_class False [] r)
      else Lit c # glob_lex r)"
| "glob_class neg acc [] = [Class neg acc]"
| "glob_class neg acc [c] =
     (if c = CHR '']'' then [Class neg acc] else [Class neg ((code c, code c) # acc)])"
| "glob_class neg acc (c # d # r) =
     (if c = bslash then glob_class neg ((code d, code d) # acc) r
      else if c = CHR '']'' then Class neg acc # glob_lex (d # r)
      else if d = CHR ''-'' then
        (case r of
           [] \<Rightarrow> glob_class neg ((code c, code c) # acc) (d # r)
         | e # r' \<Rightarrow> glob_class neg ((min (code c) (code e), max (code c) (code e)) # acc) r')
      else glob_class neg ((code c, code c) # acc) (d # r))"

definition in_class :: "(nat \<times> nat) list \<Rightarrow> char \<Rightarrow> bool" where
  "in_class rs c = (\<exists>(lo, hi) \<in> set rs. lo \<le> code c \<and> code c \<le> hi)"

fun glob_match :: "glob_token list \<Rightarrow> string \<Rightarrow> bool" where
  "glob_match [] s = (s = [])"
| "glob_match (Star # ts) [] = glob_match ts []"
| "glob_match (Star # ts) (c # s) = (glob_match ts (c # s) \<or> glob_match (Star # ts) s)"
| "glob_match (t # ts) [] = False"
| "glob_match (AnyChar # ts) (c # s) = glob_match ts s"
| "glob_match (Lit d # ts) (c # s) = (d = c \<and> glob_match ts s)"
| "glob_match (Class neg rs # ts) (c # s) = (in_class rs c \<noteq> neg \<and> glob_match ts s)"

type_synonym keyspace = "(string \<times> string) list"

definition kv_keys :: "string \<Rightarrow> keyspace \<Rightarrow> string list" where
  "kv_keys pattern ks = filter (glob_match (glob_lex pattern)) (map fst ks)"

definition kv_get :: "string \<Rightarrow> keyspace \<Rightarrow> string option" where
  "kv_get key ks = map_of ks key"

definition kv_del :: "string \<Rightarrow> keyspace \<Rightarrow> keyspace" where
  "kv_del key ks = filter (\<lambda>kv. fst kv \<noteq> key) ks"

fun kv_set :: "string \<Rightarrow> string \<Rightarrow> keyspace \<Rightarrow> keyspace" where
  "kv_set key v [] = [(key, v)]"
| "kv_set key v (kv # ks) = (if fst kv = key then (key, v) # ks else kv # kv_set key v ks)"

definition kv_setnx :: "string \<Rightarrow> string \<Rightarrow> keyspace \<Rightarrow> keyspace" where
  "kv_setnx key v ks = (if map_of ks key = None then ks @ [(key, v)] else ks)"

text \<open>
  The driver together with the store it talks to. \<open>connection\<close> tells whether the private
  field \<^verbatim>\<open>#connection\<close> has been assigned. \<open>null_key_rejects\<close> is a property of the injected
  client library, which the driver's source does not fix: what a command answers when its
  key argument is \<^verbatim>\<open>null\<close>, a rejection (\<open>True\<close>) or a completion that touches no key
  (\<open>False\<close>). \<open>locks\<close> are the resources currently held at the lock service.
\<close>

record redis =
  connection :: bool
  null_key_rejects :: bool
  keyspace :: keyspace
  locks :: "string list"

definition setConnection :: "redis \<Rightarrow> redis" where
  "setConnection r = (if connection r then r else r\<lparr>connection := True\<rparr>)"

definition del :: "string option \<Rightarrow> redis \<Rightarrow> (js_error + unit) \<times> redis" where
  "del key r =
     (if \<not> connection r then (Inl TypeError, r)
      else case key of
        None \<Rightarrow> if null_key_rejects r then (Inl (Error ''Invalid argument type''), r) else (Inr (), r)
      | Some k \<Rightarrow> (Inr (), r\<lparr>keyspace := kv_del k (keyspace r)\<rparr>))"

definition unlock :: "string \<Rightarrow> redis \<Rightarrow> redis" where
  "unlock resource r = r\<lparr>locks := removeAll resource (locks r)\<rparr>"

subsection \<open>The private functions\<close>

definition getJobKeyByPattern :: "string \<Rightarrow> redis \<Rightarrow> js_error + string option" where
  "getJobKeyByPattern pattern r =
     (if \<not> connection r then Inl TypeError
      else case kv_keys pattern (keyspace r) of
        [] \<Rightarrow> Inr None
      | k # _ \<Rightarrow> Inr (if k = [] then None else Some k))"

definition getJobByKey :: "'n platform \<Rightarrow> string \<Rightarrow> redis \<Rightarrow> js_error + 'n json" where
  "getJobByKey E key r =
     (if \<not> connection r then Inl TypeError
      else case kv_get key (keyspace r) of
        None \<Rightarrow> Inr JNull
      | Some rawJob \<Rightarrow> if rawJob = [] then Inr JNull else JSON_parse E rawJob)"

definition getJobByPattern :: "'n platform \<Rightarrow> string \<Rightarrow> redis \<Rightarrow> js_error + 'n json" where
  "getJobByPattern E pattern r =
     (case getJobKeyByPattern pattern r of
        Inl e \<Rightarrow> Inl e
      | Inr None \<Rightarrow> Inr JNull
      | Inr (Some key) \<Rightarrow> getJobByKey E key r)"

text \<open>
  \<^verbatim>\<open>#markJob\<close>: take the lock of the job, delete the first key matching the job under its
  current state, write the job under the new state, release the lock. The lock service
  refuses a resource that is held. Everything that fails between taking and releasing the
  lock is replaced by the error \<^verbatim>\<open>Failed to reserve job\<close>, after the lock is released.
\<close>

definition markJob ::
  "'n platform \<Rightarrow> (string \<times> 'n json) list \<Rightarrow> string \<Rightarrow> string \<Rightarrow> redis \<Rightarrow> (js_error + unit) \<times> redis" where
  "markJob E job mark currentState r =
     (let resource = ''jobs:locks:'' @ template E (field job ''queue'') @ ''/'' @ template E (field job ''uuid'')
      in if \<not> connection r \<or> resource \<in> set (locks r) then (Inl (Error ''Failed to get a lock''), r)
         else
           (let r1 = r\<lparr>locks := resource # locks r\<rparr> in
            case getJobKeyByPattern (''jobs_'' @ currentState @ '':*'' @ template E (field job ''uuid'')) r1 of
              Inl e \<Rightarrow> (Inl (Error ''Failed to reserve job''), unlock resource r1)
            | Inr keyToDelete \<Rightarrow>
                (case del keyToDelete r1 of
                   (Inl e, r2) \<Rightarrow> (Inl (Error ''Failed to reserve job''), unlock resource r2)
                 | (Inr u, r2) \<Rightarrow>
                     (Inr (),
                      unlock resource
                        (r2\<lparr>keyspace :=
                             kv_set (''jobs_'' @ mark @ '':'' @ template E (field job ''queue'') @ ''/''
                                      @ template E (field job ''uuid''))
                                    (JSON_stringify E (JObj job)) (keyspace r2)\<rparr>)))))"

definition reserveJob :: "'n platform \<Rightarrow> int \<Rightarrow> 'n json \<Rightarrow> redis \<Rightarrow> 'n json \<times> redis" where
  "reserveJob E now job r =
     (let jobCopy = spread job;
          currentState = (if truthy_prop E (field jobCopy ''failed_at'') then ''failed'' else ''available'');
          jobCopy = set_field ''reserved_at'' (JNum (number_of_int E now)) jobCopy;
          jobCopy = set_field ''failed_at'' JNull jobCopy
      in case markJob E jobCopy ''reserved'' currentState r of
           (Inl e, r') \<Rightarrow> (JNull, r')
         | (Inr u, r') \<Rightarrow> (JObj jobCopy, r'))"

definition failJob :: "'n platform \<Rightarrow> int \<Rightarrow> 'n json \<Rightarrow> redis \<Rightarrow> (js_error + unit) \<times> redis" where
  "failJob E now job r =
     (let jobCopy = spread job;
          jobCopy = set_field ''failed_at'' (JNum (number_of_int E now)) jobCopy;
          jobCopy = set_field ''reserved_at'' JNull jobCopy
      in markJob E jobCopy ''failed'' ''reserved'' r)"

subsection \<open>The driver operations\<close>

definition redis_storeJob :: "'n platform \<Rightarrow> 'n job \<Rightarrow> redis \<Rightarrow> (js_error + unit) \<times> redis" where
  "redis_storeJob E job r0 =
     (let r = setConnection r0
      in (Inr (),
          r\<lparr>keyspace := kv_setnx (''jobs_available:'' @ queue job @ ''/'' @ uuid job)
                                  (JSON_stringify E (JObj (job_object E job))) (keyspace r)\<rparr>))"

definition redis_getJob :: "'n platform \<Rightarrow> int \<Rightarrow> string \<Rightarrow> redis \<Rightarrow> (js_error + 'n json) \<times> redis" where
  "redis_getJob E now q r0 =
     (let r = setConnection r0
      in case getJobByPattern E (''jobs_available:'' @ q @ ''/*'') r of
           Inl e \<Rightarrow> (Inl e, r)
         | Inr job \<Rightarrow>
             if \<not> truthy E job then (Inr JNull, r)
             else (case reserveJob E now job r of (res, r') \<Rightarrow> (Inr res, r')))"

definition redis_getJobByUuid :: "'n platform \<Rightarrow> int \<Rightarrow> string \<Rightarrow> redis \<Rightarrow> (js_error + 'n json) \<times> redis" where
  "redis_getJobByUuid E now jobUuid r0 =
     (let r = setConnection r0
      in case getJobByPattern E (''jobs_available:*/'' @ jobUuid) r of
           Inl e \<Rightarrow> (Inl e, r)
         | Inr job \<Rightarrow> (case reserveJob E now job r of (res, r') \<Rightarrow> (Inr res, r')))"

definition redis_getFailedJob :: "'n platform \<Rightarrow> int \<Rightarrow> string \<Rightarrow> redis \<Rightarrow> (js_error + 'n json) \<times> redis" where
  "redis_getFailedJob E now q r =
     (case getJobByPattern E (''jobs_failed:'' @ q @ ''/*'') r of
        Inl e \<Rightarrow> (Inl e, r)
      | Inr job \<Rightarrow> (case reserveJob E now job r of (res, r') \<Rightarrow> (Inr res, r')))"

definition redis_deleteJob :: "string \<Rightarrow> redis \<Rightarrow> (js_error + unit) \<times> redis" where
  "redis_deleteJob jobUuid r =
     (case getJobKeyByPattern (''jobs_*'' @ jobUuid) r of
        Inl e \<Rightarrow> (Inl e, r)
      | Inr jobKey \<Rightarrow> del jobKey r)"

definition redis_markJobAsFailed :: "'n platform \<Rightarrow> int \<Rightarrow> string \<Rightarrow> redis \<Rightarrow> (js_error + unit) \<times> redis" where
  "redis_markJobAsFailed E now jobUuid r =
     (case getJobByPattern E (''jobs_reserved:*'' @ jobUuid) r of
        Inl e \<Rightarrow> (Inl e, r)
      | Inr job \<Rightarrow> failJob E now job r)"

definition redis_deleteAllJobs :: "redis \<Rightarrow> (js_error + unit) \<times> redis" where
  "redis_deleteAllJobs r0 =
     (let r = setConnection r0
      in (Inr (), r\<lparr>keyspace := fold kv_del (kv_keys ''*'' (keyspace r)) (keyspace r)\<rparr>))"

section \<open>The relational driver (Sqlite3Driver)\<close>

subsection \<open>The database file and its connections\<close>

text \<open>
  One database file, shared by every connection opened on it. \<open>jobs\<close> is the table's content
  in scan order, \<open>None\<close> before \<^verbatim>\<open>CREATE TABLE\<close>. \<open>txn\<close> is the open exclusive transaction: the
  connection that owns it and the content to put back on \<^verbatim>\<open>ROLLBACK\<close>. While one connection
  owns the file, a statement on any other connection is refused with \<open>SQLITE_BUSY\<close>;
  \<^verbatim>\<open>COMMIT\<close> and \<^verbatim>\<open>ROLLBACK\<close> on a connection with no open transaction are refused with
  \<open>SQLITE_ERROR\<close>; the primary key refuses a second row with the same uuid.
  \<open>sharedConnection\<close> is the driver's private field, \<open>opened\<close> counts the connections handed out.
\<close>

record sqlite3 =
  sharedConnection :: "nat option"
  opened :: nat
  jobs :: "row list option"
  txn :: "(nat \<times> row list option) option"

text \<open>
  The statements the driver runs. All but one bind their values as parameters.
  \<open>UpdateReservedAt\<close> is the statement of \<^verbatim>\<open>#reserveJob\<close>, whose text is built from the timestamp
  and the uuid, the uuid pasted between double quotes. SQLite reads a double-quoted token as
  the name of a column when the table has one of that name (letter case apart), \<open>rowid\<close> and
  its aliases included, and as a string otherwise; a double quote inside the uuid ends the
  token early. The uuid is \<open>plain\<close> when neither happens, and then the condition is that the
  row has this uuid. For any other uuid the condition is the platform's.
\<close>

definition column_names :: "string list" where
  "column_names =
     [''uuid'', ''queue'', ''payload'', ''created_at'', ''reserved_at'', ''failed_at'',
      ''rowid'', ''oid'', ''_rowid_'']"

definition lower :: "char \<Rightarrow> char" where
  "lower c =
     (case map_of (zip ''ABCDEFGHIJKLMNOPQRSTUVWXYZ'' ''abcdefghijklmnopqrstuvwxyz'') c of
        None \<Rightarrow> c
      | Some l \<Rightarrow> l)"

definition plain :: "string \<Rightarrow> bool" where
  "plain u = (dquote \<notin> set u \<and> map lower u \<notin> set column_names)"

definition where_uuid_quoted :: "'n platform \<Rightarrow> string \<Rightarrow> (row list \<Rightarrow> row \<Rightarrow> bool) option" where
  "where_uuid_quoted E u = (if plain u then Some (\<lambda>rows r. uuid r = u) else quoted_uuid E u)"

datatype statement =
    BeginExclusive
  | Commit
  | Rollback
  | CreateTable
  | Insert row
  | UpdateReservedAt int string
  | DeleteReserved string
  | UpdateFailedAt int string

datatype select = SelectAvailable string | SelectByUuid string | SelectFailed string

definition busy :: "nat \<Rightarrow> sqlite3 \<Rightarrow> bool" where
  "busy c db = (case txn db of None \<Rightarrow> False | Some (owner, saved) \<Rightarrow> owner \<noteq> c)"

definition owns :: "nat \<Rightarrow> sqlite3 \<Rightarrow> bool" where
  "owns c db = (case txn db of None \<Rightarrow> False | Some (owner, saved) \<Rightarrow> owner = c)"

definition write_rows :: "nat \<Rightarrow> sqlite3 \<Rightarrow> (row list \<Rightarrow> sqlite_code + row list) \<Rightarrow> (sqlite_code + unit) \<times> sqlite3" where
  "write_rows c db f =
     (if busy c db then (Inl SQLITE_BUSY, db)
      else case jobs db of
        None \<Rightarrow> (Inl SQLITE_ERROR, db)
      | Some rows \<Rightarrow>
          (case f rows of
             Inl e \<Rightarrow> (Inl e, db)
           | Inr rows' \<Rightarrow> (Inr (), db\<lparr>jobs := Some rows'\<rparr>)))"

fun execute :: "'n platform \<Rightarrow> statement \<Rightarrow> nat \<Rightarrow> sqlite3 \<Rightarrow> (sqlite_code + unit) \<times> sqlite3" where
  "execute E BeginExclusive c db =
     (case txn db of
        Some (owner, saved) \<Rightarrow> (Inl (if owner = c then SQLITE_ERROR else SQLITE_BUSY), db)
      | None \<Rightarrow> (Inr (), db\<lparr>txn := Some (c, jobs db)\<rparr>))"
| "execute E Commit c db =
     (if owns c db then (Inr (), db\<lparr>txn := None\<rparr>) else (Inl SQLITE_ERROR, db))"
| "execute E Rollback c db =
     (case txn db of
        None \<Rightarrow> (Inl SQLITE_ERROR, db)
      | Some (owner, saved) \<Rightarrow>
          if owner = c then (Inr (), db\<lparr>jobs := saved, txn := None\<rparr>) else (Inl SQLITE_ERROR, db))"
| "execute E CreateTable c db =
     (if busy c db then (Inl SQLITE_BUSY, db)
      else case jobs db of
        None \<Rightarrow> (Inr (), db\<lparr>jobs := Some []\<rparr>)
      | Some rows \<Rightarrow> (Inr (), db))"
| "execute E (Insert new) c db =
     write_rows c db
       (\<lambda>rows. if uuid new \<in> set (map uuid rows) then Inl SQLITE_CONSTRAINT else Inr (rows @ [new]))"
| "execute E (UpdateReservedAt t u) c db =
     write_rows c db
       (\<lambda>rows. case where_uuid_quoted E u of
                 None \<Rightarrow> Inl SQLITE_ERROR
               | Some cond \<Rightarrow>
                   Inr (map (\<lambda>r. if cond rows r then r\<lparr>reserved_at := Some t\<rparr> else r) rows))"
| "execute E (DeleteReserved u) c db =
     write_rows c db
       (\<lambda>rows. Inr (filter (\<lambda>r. \<not> (reserved_at r \<noteq> None \<and> uuid r = u)) rows))"
| "execute E (UpdateFailedAt t u) c db =
     write_rows c db
       (\<lambda>rows. Inr (map (\<lambda>r. if uuid r = u then r\<lparr>failed_at := Some t, reserved_at := None\<rparr> else r) rows))"

fun selects :: "select \<Rightarrow> row \<Rightarrow> bool" where
  "selects (SelectAvailable q) r = (queue r = q \<and> failed_at r = None \<and> reserved_at r = None)"
| "selects (SelectByUuid u) r = (uuid r = u \<and> reserved_at r = None)"
| "selects (SelectFailed q) r = (queue r = q \<and> failed_at r \<noteq> None \<and> reserved_at r = None)"

definition fetch_one :: "select \<Rightarrow> nat \<Rightarrow> sqlite3 \<Rightarrow> sqlite_code + row option" where
  "fetch_one sel c db =
     (if busy c db then Inl SQLITE_BUSY
      else case jobs db of
        None \<Rightarrow> Inl SQLITE_ERROR
      | Some rows \<Rightarrow> Inr (find (selects sel) rows))"

subsection \<open>The private functions\<close>

definition parseJobResult :: "'n platform \<Rightarrow> row \<Rightarrow> js_error + 'n job" where
  "parseJobResult E result =
     (case JSON_parse E (payload result) of
        Inl e \<Rightarrow> Inl e
      | Inr p \<Rightarrow>
          Inr \<lparr>uuid = uuid result, queue = queue result, payload = p,
               created_at = created_at result, reserved_at = reserved_at result,
               failed_at = failed_at result\<rparr>)"

definition getNewConnection :: "sqlite3 \<Rightarrow> nat \<times> sqlite3" where
  "getNewConnection db = (opened db, db\<lparr>opened := Suc (opened db)\<rparr>)"

definition setSharedConnection :: "sqlite3 \<Rightarrow> sqlite3" where
  "setSharedConnection db =
     (case sharedConnection db of
        Some c \<Rightarrow> db
      | None \<Rightarrow> (case getNewConnection db of (c, db') \<Rightarrow> db'\<lparr>sharedConnection := Some c\<rparr>))"

definition connectionToUse :: "nat option \<Rightarrow> sqlite3 \<Rightarrow> nat option" where
  "connectionToUse conn db = (case conn of Some c \<Rightarrow> Some c | None \<Rightarrow> sharedConnection db)"

definition run :: "'n platform \<Rightarrow> statement \<Rightarrow> nat option \<Rightarrow> sqlite3 \<Rightarrow> (js_error + unit) \<times> sqlite3" where
  "run E query conn db =
     (case connectionToUse conn db of
        None \<Rightarrow> (Inl TypeError, db)
      | Some c \<Rightarrow>
          (case execute E query c db of
             (Inl e, db') \<Rightarrow> (Inl (SqliteError e), db')
           | (Inr u, db') \<Rightarrow> (Inr (), db')))"

definition getRow :: "select \<Rightarrow> nat option \<Rightarrow> sqlite3 \<Rightarrow> js_error + row option" where
  "getRow query conn db =
     (case connectionToUse conn db of
        None \<Rightarrow> Inl TypeError
      | Some c \<Rightarrow>
          (case fetch_one query c db of
             Inl e \<Rightarrow> Inl (SqliteError e)
           | Inr r \<Rightarrow> Inr r))"

text \<open>
  \<^verbatim>\<open>#reserveJob\<close>. \<open>reserve_catch\<close> is its \<^verbatim>\<open>catch\<close> block: it awaits the \<^verbatim>\<open>ROLLBACK\<close> and then
  returns \<^verbatim>\<open>null\<close>; a \<^verbatim>\<open>ROLLBACK\<close> that is itself refused leaves the call rejected with that
  error. The job returned is the row as it was selected, with the payload parsed.
\<close>

definition reserve_catch :: "'n platform \<Rightarrow> nat \<Rightarrow> sqlite3 \<Rightarrow> (js_error + 'n job option) \<times> sqlite3" where
  "reserve_catch E c db =
     (case run E Rollback (Some c) db of
        (Inl e, db') \<Rightarrow> (Inl e, db')
      | (Inr u, db') \<Rightarrow> (Inr None, db'))"

definition sqlite3_reserveJob ::
  "'n platform \<Rightarrow> int \<Rightarrow> nat \<Rightarrow> select \<Rightarrow> sqlite3 \<Rightarrow> (js_error + 'n job option) \<times> sqlite3" where
  "sqlite3_reserveJob E now c selectQuery db =
     (case run E BeginExclusive (Some c) db of
        (Inl e, db1) \<Rightarrow> reserve_catch E c db1
      | (Inr u, db1) \<Rightarrow>
          (case getRow selectQuery (Some c) db1 of
             Inl e \<Rightarrow> reserve_catch E c db1
           | Inr None \<Rightarrow>
               (case run E Commit (Some c) db1 of
                  (Inl e, db2) \<Rightarrow> reserve_catch E c db2
                | (Inr u, db2) \<Rightarrow> (Inr None, db2))
           | Inr (Some rawJob) \<Rightarrow>
               (case parseJobResult E rawJob of
                  Inl e \<Rightarrow> reserve_catch E c db1
                | Inr job \<Rightarrow>
                    (case run E (UpdateReservedAt now (uuid job)) (Some c) db1 of
                       (Inl e, db2) \<Rightarrow> reserve_catch E c db2
                     | (Inr u, db2) \<Rightarrow>
                         (case run E Commit (Some c) db2 of
                            (Inl e, db3) \<Rightarrow> reserve_catch E c db3
                          | (Inr u, db3) \<Rightarrow> (Inr (Some job), db3))))))"

subsection \<open>The driver operations\<close>

definition sqlite3_createJobsDbStructure :: "'n platform \<Rightarrow> sqlite3 \<Rightarrow> (js_error + unit) \<times> sqlite3" where
  "sqlite3_createJobsDbStructure E db = run E CreateTable None (setSharedConnection db)"

definition sqlite3_storeJob :: "'n platform \<Rightarrow> 'n job \<Rightarrow> sqlite3 \<Rightarrow> (js_error + unit) \<times> sqlite3" where
  "sqlite3_storeJob E job db =
     run E (Insert \<lparr>uuid = uuid job, queue = queue job, payload = JSON_stringify E (payload job),
                  created_at = created_at job, reserved_at = None, failed_at = None\<rparr>)
         None (setSharedConnection db)"

definition sqlite3_getJob :: "'n platform \<Rightarrow> int \<Rightarrow> string \<Rightarrow> sqlite3 \<Rightarrow> (js_error + 'n job option) \<times> sqlite3" where
  "sqlite3_getJob E now q db =
     (case getNewConnection db of (c, db') \<Rightarrow> sqlite3_reserveJob E now c (SelectAvailable q) db')"

definition sqlite3_getJobByUuid :: "'n platform \<Rightarrow> int \<Rightarrow> string \<Rightarrow> sqlite3 \<Rightarrow> (js_error + 'n job option) \<times> sqlite3" where
  "sqlite3_getJobByUuid E now jobUuid db =
     (case getNewConnection db of (c, db') \<Rightarrow> sqlite3_reserveJob E now c (SelectByUuid jobUuid) db')"

definition sqlite3_getFailedJob :: "'n platform \<Rightarrow> int \<Rightarrow> string \<Rightarrow> sqlite3 \<Rightarrow> (js_error + 'n job option) \<times> sqlite3" where
  "sqlite3_getFailedJob E now q db =
     (case getNewConnection db of (c, db') \<Rightarrow> sqlite3_reserveJob E now c (SelectFailed q) db')"

definition sqlite3_deleteJob :: "'n platform \<Rightarrow> string \<Rightarrow> sqlite3 \<Rightarrow> (js_error + unit) \<times> sqlite3" where
  "sqlite3_deleteJob E jobUuid db = run E (DeleteReserved jobUuid) None (setSharedConnection db)"

definition sqlite3_markJobAsFailed :: "'n platform \<Rightarrow> int \<Rightarrow> string \<Rightarrow> sqlite3 \<Rightarrow> (js_error + unit) \<times> sqlite3" where
  "sqlite3_markJobAsFailed E now jobUuid db =
     run E (UpdateFailedAt now jobUuid) None (setSharedConnection db)"

section \<open>Concurrent callers of the distributed-store driver\<close>

text \<open>
  \<^verbatim>\<open>getJob\<close> yields to other callers at each \<^verbatim>\<open>await\<close>. A call is followed here through two
  atomic steps: the first runs up to the end of \<^verbatim>\<open>#getJobByPattern\<close> (the job has been read),
  the second runs \<^verbatim>\<open>#reserveJob\<close>, whose critical section is taken whole. A schedule names,
  step by step, the caller that moves next.
\<close>

datatype 'n getJob_call = Called string | Fetched "'n json" | Finished "js_error + 'n json"

definition getJob_step :: "'n platform \<Rightarrow> int \<Rightarrow> 'n getJob_call \<Rightarrow> redis \<Rightarrow> 'n getJob_call \<times> redis" where
  "getJob_step E now call r0 =
     (case call of
        Called q \<Rightarrow>
          (let r = setConnection r0
           in case getJobByPattern E (''jobs_available:'' @ q @ ''/*'') r of
                Inl e \<Rightarrow> (Finished (Inl e), r)
              | Inr job \<Rightarrow> if \<not> truthy E job then (Finished (Inr JNull), r) else (Fetched job, r))
      | Fetched job \<Rightarrow> (case reserveJob E now job r0 of (res, r') \<Rightarrow> (Finished (Inr res), r'))
      | Finished res \<Rightarrow> (Finished res, r0))"

fun interleave :: "'n platform \<Rightarrow> int \<Rightarrow> nat list \<Rightarrow> 'n getJob_call list \<Rightarrow> redis \<Rightarrow> 'n getJob_call list \<times> redis" where
  "interleave E now [] calls r = (calls, r)"
| "interleave E now (i # schedule) calls r =
     (if i < length calls
      then (case getJob_step E now (calls ! i) r of
              (call', r') \<Rightarrow> interleave E now schedule (calls[i := call']) r')
      else interleave E now schedule calls r)"

section \<open>The queue client and the facade\<close>

text \<open>
  The client sees a driver through the three operations of the driver contract that
  handling a job uses, and reads the uuid and the payload of the job it is given. A job
  handler runs against a state of its own, so that an invocation leaves a trace.
\<close>

record ('s, 'j, 'p) driver =
  fetchAndReserve :: "string \<Rightarrow> 's \<Rightarrow> 'j option \<times> 's"
  delete :: "string \<Rightarrow> 's \<Rightarrow> 's"
  markFailed :: "string \<Rightarrow> 's \<Rightarrow> 's"
  uuid_of :: "'j \<Rightarrow> string"
  payload_of :: "'j \<Rightarrow> 'p"

datatype ('e, 'a) outcome = NothingToDo | Returned 'a | Raised 'e

text \<open>
  Modelled from the spec: \<^verbatim>\<open>QueueClient.handleJob\<close>, to which the facade delegates, is not among
  the sources. \<open>handle\<close> calls \<open>fetchAndReserve\<close>; with no job it answers \<open>NothingToDo\<close> at once,
  without invoking the handler; otherwise it invokes the handler on the payload, and deletes
  the job and returns the handler's result when the handler completes, or marks the job
  failed and raises the handler's error.
\<close>

definition QueueClient_handleJob ::
  "('s, 'j, 'p) driver \<Rightarrow> ('p \<Rightarrow> 'w \<Rightarrow> ('e + 'a) \<times> 'w) \<Rightarrow> string \<Rightarrow> 's \<times> 'w \<Rightarrow> ('e, 'a) outcome \<times> 's \<times> 'w" where
  "QueueClient_handleJob d jobHandler q sw =
     (case sw of (s, w) \<Rightarrow>
        (case fetchAndReserve d q s of
           (None, s1) \<Rightarrow> (NothingToDo, s1, w)
         | (Some job, s1) \<Rightarrow>
             (case jobHandler (payload_of d job) w of
                (Inr result, w1) \<Rightarrow> (Returned result, delete d (uuid_of d job) s1, w1)
              | (Inl err, w1) \<Rightarrow> (Raised err, markFailed d (uuid_of d job) s1, w1))))"

text \<open>\<^verbatim>\<open>VerySimpleQueue.handleJob\<close>: the queue defaults to \<^verbatim>\<open>'default'\<close>.\<close>

definition default_queue :: "string option \<Rightarrow> string" where
  "default_queue q = (case q of None \<Rightarrow> ''default'' | Some name \<Rightarrow> name)"

definition handleJob ::
  "('s, 'j, 'p) driver \<Rightarrow> ('p \<Rightarrow> 'w \<Rightarrow> ('e + 'a) \<times> 'w) \<Rightarrow> string option \<Rightarrow> 's \<times> 'w \<Rightarrow> ('e, 'a) outcome \<times> 's \<times> 'w" where
  "handleJob d jobHandler q sw = QueueClient_handleJob d jobHandler (default_queue q) sw"

text \<open>
  The relational driver seen through the driver contract, for running the client on it.
  The contract has no rejected calls; a call of the driver that rejects appears as no job.
\<close>

definition sqlite3_contract :: "'n platform \<Rightarrow> int \<Rightarrow> (sqlite3, 'n job, 'n json) driver" where
  "sqlite3_contract E now =
     \<lparr>fetchAndReserve =
        (\<lambda>q db. case sqlite3_getJob E now q db of
                   (Inr found, db') \<Rightarrow> (found, db')
                 | (Inl e, db') \<Rightarrow> (None, db')),
      delete = (\<lambda>u db. snd (sqlite3_deleteJob E u db)),
      markFailed = (\<lambda>u db. snd (sqlite3_markJobAsFailed E now u db)),
      uuid_of = uuid,
      payload_of = payload\<rparr>"

section \<open>Histories of driver operations\<close>









text \<open>
  What the stores hold about one uuid. A table is \<open>table_ok\<close> when every row with the uuid
  has the text of the payload; a database is \<open>sound\<close> when its table and the table saved by
  an open transaction are. A stored value is \<open>record_ok\<close> when the job it parses to, if it
  carries the uuid, carries the payload; the platform \<open>keeps\<close> the payload when the text it
  writes for such a job is such a value; the uuid is unused when no stored value carries it.
\<close>

definition table_ok :: "'n platform \<Rightarrow> string \<Rightarrow> 'n json \<Rightarrow> row list option \<Rightarrow> bool" where
  "table_ok E u p t =
     (case t of None \<Rightarrow> True | Some rows \<Rightarrow> list_all (\<lambda>r. uuid r = u \<longrightarrow> payload r = JSON_stringify E p) rows)"

definition sound :: "'n platform \<Rightarrow> string \<Rightarrow> 'n json \<Rightarrow> sqlite3 \<Rightarrow> bool" where
  "sound E u p db =
     (table_ok E u p (jobs db)
      \<and> (case txn db of None \<Rightarrow> True | Some (owner, saved) \<Rightarrow> table_ok E u p saved))"








section \<open>A platform for the examples\<close>

text \<open>
  To run the drivers on example data a platform is needed. This one has the integers for
  numbers. On the values of the examples (names and uuids made of letters and digits, small
  integers) \<open>print_json\<close> writes the text that \<^verbatim>\<open>JSON.stringify\<close> writes and \<open>read_json\<close> reads
  it as \<^verbatim>\<open>JSON.parse\<close> does; beyond such values it is not a model of the built-ins. It
  compiles no condition from a quoted text that is not plain: the uuids of the examples are.
\<close>

definition is_digit :: "char \<Rightarrow> bool" where
  "is_digit c = (c \<in> set ''0123456789'')"

definition digit_val :: "char \<Rightarrow> nat" where
  "digit_val c = length (takeWhile (\<lambda>d. d \<noteq> c) ''0123456789'')"

fun escape :: "string \<Rightarrow> string" where
  "escape [] = []"
| "escape (c # cs) =
     (if c = dquote \<or> c = bslash then bslash # c # escape cs else c # escape cs)"

definition quote :: "string \<Rightarrow> string" where
  "quote s = dquote # escape s @ [dquote]"

primrec print_json :: "int json \<Rightarrow> string" where
  "print_json JNull = ''null''"
| "print_json (JBool b) = (if b then ''true'' else ''false'')"
| "print_json (JNum i) = show_int i"
| "print_json (JStr s) = quote s"
| "print_json (JArr xs) = CHR ''['' # commas (map print_json xs) @ '']''"
| "print_json (JObj kvs) =
     CHR ''{'' # commas (map (\<lambda>kv. quote (fst kv) @ CHR '':'' # snd kv) (map (map_prod id print_json) kvs)) @ ''}''"

fun parse_chars :: "string \<Rightarrow> (string \<times> string) option" where
  "parse_chars [] = None"
| "parse_chars [c] = (if c = dquote then Some ([], []) else None)"
| "parse_chars (c # d # ds) =
     (if c = dquote then Some ([], d # ds)
      else if c = bslash then
        (if d = dquote \<or> d = bslash then map_option (apfst ((#) d)) (parse_chars ds) else None)
      else map_option (apfst ((#) c)) (parse_chars (d # ds)))"

definition parse_nat :: "string \<Rightarrow> (nat \<times> string) option" where
  "parse_nat s =
     (let ds = takeWhile is_digit s in
      if ds = [] \<or> (1 < length ds \<and> hd ds = CHR ''0'') then None
      else Some (foldl (\<lambda>a c. 10 * a + digit_val c) 0 ds, dropWhile is_digit s))"

definition integral_end :: "string \<Rightarrow> bool" where
  "integral_end r = (case r of [] \<Rightarrow> True | c # _ \<Rightarrow> c \<notin> set ''.eE'')"

definition parse_int :: "string \<Rightarrow> (int \<times> string) option" where
  "parse_int s =
     (case (case s of
              [] \<Rightarrow> None
            | c # cs \<Rightarrow> if c = CHR ''-'' then map_option (apfst (\<lambda>n. - int n)) (parse_nat cs)
                        else map_option (apfst int) (parse_nat s)) of
        None \<Rightarrow> None
      | Some (i, r) \<Rightarrow> if integral_end r then Some (i, r) else None)"

definition strip_prefix :: "string \<Rightarrow> string \<Rightarrow> string option" where
  "strip_prefix p s = (if take (length p) s = p then Some (drop (length p) s) else None)"

fun parse_value :: "nat \<Rightarrow> string \<Rightarrow> (int json \<times> string) option"
  and parse_elements :: "nat \<Rightarrow> string \<Rightarrow> (int json list \<times> string) option"
  and parse_members :: "nat \<Rightarrow> string \<Rightarrow> ((string \<times> int json) list \<times> string) option"
where
  "parse_value 0 s = None"
| "parse_value (Suc n) s =
     (case s of
        [] \<Rightarrow> None
      | c # cs \<Rightarrow>
          if c = CHR ''n'' then map_option (Pair JNull) (strip_prefix ''ull'' cs)
          else if c = CHR ''t'' then map_option (Pair (JBool True)) (strip_prefix ''rue'' cs)
          else if c = CHR ''f'' then map_option (Pair (JBool False)) (strip_prefix ''alse'' cs)
          else if c = dquote then map_option (apfst JStr) (parse_chars cs)
          else if c = CHR ''['' then
            (case cs of
               [] \<Rightarrow> None
             | d # ds \<Rightarrow> if d = CHR '']'' then Some (JArr [], ds)
                         else map_option (apfst JArr) (parse_elements n cs))
          else if c = CHR ''{'' then
            (case cs of
               [] \<Rightarrow> None
             | d # ds \<Rightarrow> if d = CHR ''}'' then Some (JObj [], ds)
                         else map_option (apfst JObj) (parse_members n cs))
          else map_option (apfst JNum) (parse_int s))"
| "parse_elements 0 s = None"
| "parse_elements (Suc n) s =
     (case parse_value n s of
        None \<Rightarrow> None
      | Some (v, r) \<Rightarrow>
          (case r of
             [] \<Rightarrow> None
           | c # cs \<Rightarrow> if c = CHR '','' then map_option (apfst ((#) v)) (parse_elements n cs)
                       else if c = CHR '']'' then Some ([v], cs)
                       else None))"
| "parse_members 0 s = None"
| "parse_members (Suc n) s =
     (case s of
        [] \<Rightarrow> None
      | q # s1 \<Rightarrow>
          if q \<noteq> dquote then None
          else
            (case parse_chars s1 of
               None \<Rightarrow> None
             | Some (k, s2) \<Rightarrow>
                 (case s2 of
                    [] \<Rightarrow> None
                  | col # s3 \<Rightarrow>
                      if col \<noteq> CHR '':'' then None
                      else
                        (case parse_value n s3 of
                           None \<Rightarrow> None
                         | Some (v, r) \<Rightarrow>
                             (case r of
                                [] \<Rightarrow> None
                              | c # cs \<Rightarrow>
                                  if c = CHR '','' then map_option (apfst ((#) (k, v))) (parse_members n cs)
                                  else if c = CHR ''}'' then Some ([(k, v)], cs)
                                  else None)))))"

definition read_json :: "string \<Rightarrow> int json option" where
  "read_json s = (case parse_value (length s) s of Some (v, []) \<Rightarrow> Some v | _ \<Rightarrow> None)"

definition member_text :: "string \<times> int json \<Rightarrow> string" where
  "member_text kv = quote (fst kv) @ CHR '':'' # print_json (snd kv)"

definition nondigit_next :: "string \<Rightarrow> bool" where
  "nondigit_next r = (case r of [] \<Rightarrow> True | c # _ \<Rightarrow> \<not> is_digit c)"

definition delim :: "string \<Rightarrow> bool" where
  "delim r = (case r of [] \<Rightarrow> True | c # _ \<Rightarrow> c \<in> set '',]}'')"

definition value_start :: "char \<Rightarrow> bool" where
  "value_start c = (c \<in> set ''ntf[{-0123456789'' \<or> c = dquote)"

definition example_platform :: "int platform" where
  "example_platform =
     \<lparr>number_of_int = (\<lambda>i. i),
      number_falsy = (\<lambda>i. i = 0),
      number_string = show_int,
      JSON_stringify = print_json,
      JSON_parse = (\<lambda>s. case read_json s of None \<Rightarrow> Inl SyntaxError | Some v \<Rightarrow> Inr v),
      quoted_uuid = (\<lambda>u. None)\<rparr>"

section \<open>Example data\<close>

text \<open>
  One job, a driver of each kind before its first call, and the stores reached from them by
  the drivers' own operations: the job stored, and the job stored, reserved and marked failed.
\<close>

definition example_job :: "int job" where
  "example_job = \<lparr>uuid = ''u1'', queue = ''q'', payload = JObj [(''x'', JNum 1)],
                   created_at = 100, reserved_at = None, failed_at = None\<rparr>"

definition fresh_redis :: redis where
  "fresh_redis = \<lparr>connection = False, null_key_rejects = False, keyspace = [], locks = []\<rparr>"

definition fresh_sqlite3 :: sqlite3 where
  "fresh_sqlite3 = \<lparr>sharedConnection = None, opened = 0, jobs = None, txn = None\<rparr>"

definition stored_redis :: redis where
  "stored_redis = snd (redis_storeJob example_platform example_job fresh_redis)"

definition stored_sqlite3 :: sqlite3 where
  "stored_sqlite3 =
     snd (sqlite3_storeJob example_platform example_job
            (snd (sqlite3_createJobsDbStructure example_platform fresh_sqlite3)))"

definition failed_sqlite3 :: sqlite3 where
  "failed_sqlite3 =
     snd (sqlite3_markJobAsFailed example_platform 6 ''u1''
            (snd (sqlite3_getJob example_platform 5 ''q'' stored_sqlite3)))"

section \<open>The example platform reads back what it writes\<close>

text \<open>Every value is read back from its text: \<open>read_json\<close> inverts \<open>print_json\<close>.\<close>

lemma digit_char_is_digit: "d < 10 \<Longrightarrow> is_digit (digit_char d)"
proof -
  assume "d < 10"
  then have "d \<in> {0,1,2,3,4,5,6,7,8,9}" by auto
  then show ?thesis by (auto simp: is_digit_def digit_char_def)
qed

lemma digit_val_digit_char: "d < 10 \<Longrightarrow> digit_val (digit_char d) = d"
proof -
  assume "d < 10"
  then have "d \<in> {0,1,2,3,4,5,6,7,8,9}" by auto
  then show ?thesis by (auto simp: digit_val_def digit_char_def)
qed

lemma digit_char_zero: "d < 10 \<Longrightarrow> digit_char d = CHR ''0'' \<Longrightarrow> d = 0"
proof -
  assume "d < 10" and z: "digit_char d = CHR ''0''"
  then have "d \<in> {0,1,2,3,4,5,6,7,8,9}" by auto
  with z show ?thesis by (auto simp: digit_char_def)
qed

lemma show_nat_digits: "\<forall>c \<in> set (show_nat n). is_digit c"
proof (induction n rule: show_nat.induct)
  case (1 n)
  show ?case
  proof (cases "n < 10")
    case True
    then show ?thesis by (simp add: show_nat.simps [of n] digit_char_is_digit)
  next
    case False
    have "n mod 10 < 10" by simp
    with False 1 show ?thesis
      by (simp add: show_nat.simps [of n] digit_char_is_digit)
  qed
qed

lemma show_nat_nonempty: "show_nat n \<noteq> []"
  by (simp add: show_nat.simps [of n])

lemma show_nat_value: "foldl (\<lambda>a c. 10 * a + digit_val c) 0 (show_nat n) = n"
proof (induction n rule: show_nat.induct)
  case (1 n)
  show ?case
  proof (cases "n < 10")
    case True
    then show ?thesis by (simp add: show_nat.simps [of n] digit_val_digit_char)
  next
    case False
    have "n mod 10 < 10" by simp
    with False 1 show ?thesis
      by (simp add: show_nat.simps [of n] digit_val_digit_char)
  qed
qed

lemma show_nat_leading: "1 < length (show_nat n) \<Longrightarrow> hd (show_nat n) \<noteq> CHR ''0''"
proof (induction n rule: show_nat.induct)
  case (1 n)
  show ?case
  proof (cases "n < 10")
    case True
    with 1(2) show ?thesis by (simp add: show_nat.simps [of n])
  next
    case False
    then have eq: "show_nat n = show_nat (n div 10) @ [digit_char (n mod 10)]"
      by (simp add: show_nat.simps [of n])
    have hd_eq: "hd (show_nat n) = hd (show_nat (n div 10))"
      by (simp add: eq show_nat_nonempty)
    show ?thesis
    proof (cases "n div 10 < 10")
      case True
      have "n div 10 \<noteq> 0" using False by auto
      with True digit_char_zero [of "n div 10"] show ?thesis
        by (auto simp: hd_eq show_nat.simps [of "n div 10"])
    next
      case False
      then have "1 < length (show_nat (n div 10))"
        using show_nat_nonempty [of "n div 10 div 10"]
        by (simp add: show_nat.simps [of "n div 10"])
      with 1(1) \<open>\<not> n < 10\<close> show ?thesis by (simp add: hd_eq)
    qed
  qed
qed

lemma parse_nat_show_nat:
  assumes "nondigit_next r"
  shows "parse_nat (show_nat n @ r) = Some (n, r)"
proof -
  have tw: "takeWhile is_digit (show_nat n @ r) = show_nat n"
    using assms show_nat_digits [of n]
    by (cases r) (auto simp: nondigit_next_def)
  have dw: "dropWhile is_digit (show_nat n @ r) = r"
    using assms show_nat_digits [of n]
    by (cases r) (auto simp: nondigit_next_def)
  show ?thesis
    using show_nat_leading [of n]
    by (auto simp: parse_nat_def Let_def tw dw show_nat_nonempty show_nat_value)
qed

lemma parse_int_show_int:
  assumes "nondigit_next r" and "integral_end r"
  shows "parse_int (show_int i @ r) = Some (i, r)"
proof (cases "i < 0")
  case True
  then show ?thesis
    using assms by (simp add: parse_int_def show_int_def parse_nat_show_nat)
next
  case False
  obtain c cs where sn: "show_nat (nat i) = c # cs"
    using show_nat_nonempty [of "nat i"] by (cases "show_nat (nat i)") auto
  have "is_digit c" using show_nat_digits [of "nat i"] by (simp add: sn)
  then have "c \<noteq> CHR ''-''" by (auto simp: is_digit_def)
  moreover have "parse_nat (c # cs @ r) = Some (nat i, r)"
    using parse_nat_show_nat [OF assms(1), of "nat i"] by (simp add: sn)
  ultimately show ?thesis
    using False assms(2) by (simp add: parse_int_def show_int_def sn)
qed

lemma parse_chars_escape: "parse_chars (escape s @ dquote # r) = Some (s, r)"
proof (induction s)
  case Nil
  show ?case by (cases r) simp_all
next
  case (Cons c cs)
  obtain d ds where tl: "escape cs @ dquote # r = d # ds"
    by (cases "escape cs @ dquote # r") auto
  show ?case
  proof (cases "c = dquote \<or> c = bslash")
    case True
    then show ?thesis using Cons by (auto simp: dquote_def bslash_def)
  next
    case False
    have "parse_chars (c # d # ds) = map_option (apfst ((#) c)) (parse_chars (d # ds))"
      using False by simp
    then show ?thesis using False Cons by (simp add: tl [symmetric])
  qed
qed

lemma delim_nondigit: "delim r \<Longrightarrow> nondigit_next r"
  by (cases r) (auto simp: delim_def nondigit_next_def is_digit_def)

lemma delim_integral: "delim r \<Longrightarrow> integral_end r"
  by (cases r) (auto simp: delim_def integral_end_def)

lemma delim_simps [simp]:
  "delim []" "delim (CHR '','' # r)" "delim (CHR '']'' # r)" "delim (CHR ''}'' # r)"
  by (simp_all add: delim_def)

lemma print_json_start: "\<exists>c cs. print_json v = c # cs \<and> value_start c"
proof (cases v)
  case (JNum i)
  obtain c cs where sn: "show_nat (nat \<bar>i\<bar>) = c # cs"
    using show_nat_nonempty [of "nat \<bar>i\<bar>"] by (cases "show_nat (nat \<bar>i\<bar>)") auto
  have "is_digit c" using show_nat_digits [of "nat \<bar>i\<bar>"] by (simp add: sn)
  then have "value_start c" by (auto simp: is_digit_def value_start_def)
  then show ?thesis
    using JNum sn by (cases "i < 0") (auto simp: show_int_def value_start_def abs_if)
qed (auto simp: value_start_def quote_def)

lemma print_json_JObj:
  "print_json (JObj kvs) = CHR ''{'' # commas (map member_text kvs) @ ''}''"
  by (simp add: member_text_def [abs_def] comp_def)

declare print_json.simps(6) [simp del]
declare print_json_JObj [simp]

lemma show_int_start:
  "\<exists>c cs. show_int i = c # cs \<and> (c = CHR ''-'' \<or> is_digit c)"
proof -
  obtain c cs where sn: "show_nat (nat \<bar>i\<bar>) = c # cs"
    using show_nat_nonempty [of "nat \<bar>i\<bar>"] by (cases "show_nat (nat \<bar>i\<bar>)") auto
  have "is_digit c" using show_nat_digits [of "nat \<bar>i\<bar>"] by (simp add: sn)
  then show ?thesis
    using sn by (cases "i < 0") (auto simp: show_int_def abs_if)
qed

lemma parse_value_number:
  assumes "c = CHR ''-'' \<or> is_digit c"
  shows "parse_value (Suc n) (c # cs) = map_option (apfst JNum) (parse_int (c # cs))"
  using assms by (auto simp: is_digit_def dquote_def)

lemma parse_value_JNum:
  assumes "delim r"
  shows "parse_value (Suc n) (show_int i @ r) = Some (JNum i, r)"
proof -
  obtain c cs where si: "show_int i = c # cs" and c: "c = CHR ''-'' \<or> is_digit c"
    using show_int_start by blast
  have "parse_value (Suc n) (c # cs @ r) = map_option (apfst JNum) (parse_int (c # cs @ r))"
    using c by (rule parse_value_number)
  also have "parse_int (c # cs @ r) = Some (i, r)"
    using parse_int_show_int [OF delim_nondigit [OF assms] delim_integral [OF assms], of i]
    by (simp add: si)
  finally show ?thesis by (simp add: si)
qed

lemma parse_value_JStr:
  "parse_value (Suc n) (quote s @ r) = Some (JStr s, r)"
  using parse_chars_escape [of s r]
  by (simp add: quote_def dquote_def)

lemma parse_elements_commas:
  assumes "\<And>x n r. x \<in> set xs \<Longrightarrow> delim r \<Longrightarrow> length (print_json x) \<le> n
             \<Longrightarrow> parse_value n (print_json x @ r) = Some (x, r)"
    and "xs \<noteq> []"
    and "length (commas (map print_json xs)) < n"
  shows "parse_elements n (commas (map print_json xs) @ CHR '']'' # r) = Some (xs, r)"
  using assms
proof (induction xs arbitrary: n)
  case Nil
  then show ?case by simp
next
  case (Cons x ys)
  obtain m where n: "n = Suc m" using Cons.prems(3) by (cases n) auto
  show ?case
  proof (cases ys)
    case Nil
    have "parse_value m (print_json x @ CHR '']'' # r) = Some (x, CHR '']'' # r)"
      using Cons.prems(1) [of x "CHR '']'' # r" m] Cons.prems(3) n Nil by simp
    then show ?thesis using Nil n by simp
  next
    case (Cons y zs)
    have len: "length (print_json x) + 1 + length (commas (map print_json ys)) \<le> m"
      using Cons.prems(3) n Cons by simp
    have "parse_value m (print_json x @ CHR '','' # commas (map print_json ys) @ CHR '']'' # r)
            = Some (x, CHR '','' # commas (map print_json ys) @ CHR '']'' # r)"
      using Cons.prems(1) [of x "CHR '','' # commas (map print_json ys) @ CHR '']'' # r" m] len
      by simp
    moreover have "parse_elements m (commas (map print_json ys) @ CHR '']'' # r) = Some (ys, r)"
    proof (rule Cons.IH)
      show "ys \<noteq> []" using Cons by simp
      show "length (commas (map print_json ys)) < m" using len by simp
    qed (use Cons.prems(1) in auto)
    ultimately show ?thesis using Cons n by simp
  qed
qed

lemma parse_members_commas:
  assumes "\<And>k x n r. (k, x) \<in> set kvs \<Longrightarrow> delim r \<Longrightarrow> length (print_json x) \<le> n
             \<Longrightarrow> parse_value n (print_json x @ r) = Some (x, r)"
    and "kvs \<noteq> []"
    and "length (commas (map member_text kvs)) < n"
  shows "parse_members n (commas (map member_text kvs) @ CHR ''}'' # r) = Some (kvs, r)"
  using assms
proof (induction kvs arbitrary: n)
  case Nil
  then show ?case by simp
next
  case (Cons kv ys)
  obtain k x where kv: "kv = (k, x)" by (cases kv)
  obtain m where n: "n = Suc m" using Cons.prems(3) by (cases n) auto
  have key: "\<And>t. parse_chars (escape k @ dquote # t) = Some (k, t)"
    by (rule parse_chars_escape)
  have mt: "member_text (k, x) = dquote # escape k @ dquote # CHR '':'' # print_json x"
    by (simp add: member_text_def quote_def)
  show ?case
  proof (cases ys)
    case Nil
    have "parse_value m (print_json x @ CHR ''}'' # r) = Some (x, CHR ''}'' # r)"
      using Cons.prems(1) [of k x "CHR ''}'' # r" m] Cons.prems(3) n Nil
      by (simp add: kv mt)
    then show ?thesis using Nil n key by (simp add: kv mt)
  next
    case (Cons y zs)
    have len: "length (print_json x) + 1 + length (commas (map member_text ys)) \<le> m"
      using Cons.prems(3) n Cons by (simp add: kv mt)
    have "parse_value m (print_json x @ CHR '','' # commas (map member_text ys) @ CHR ''}'' # r)
            = Some (x, CHR '','' # commas (map member_text ys) @ CHR ''}'' # r)"
      using Cons.prems(1) [of k x "CHR '','' # commas (map member_text ys) @ CHR ''}'' # r" m] len kv
      by simp
    moreover have "parse_members m (commas (map member_text ys) @ CHR ''}'' # r) = Some (ys, r)"
    proof (rule Cons.IH)
      show "ys \<noteq> []" using Cons by simp
      show "length (commas (map member_text ys)) < m" using len by simp
    qed (use Cons.prems(1) in auto)
    ultimately show ?thesis using Cons n key by (simp add: kv mt)
  qed
qed

lemma parse_value_print_json:
  "delim r \<Longrightarrow> length (print_json v) \<le> n \<Longrightarrow> parse_value n (print_json v @ r) = Some (v, r)"
proof (induction v arbitrary: n r)
  case JNull
  then obtain m where "n = Suc m" by (cases n) auto
  then show ?case by (simp add: strip_prefix_def)
next
  case (JBool b)
  then obtain m where "n = Suc m" by (cases n) (auto split: if_splits)
  then show ?case by (simp add: strip_prefix_def)
next
  case (JNum i)
  obtain m where "n = Suc m"
    using JNum(2) show_int_start [of i] by (cases n) auto
  then show ?case using parse_value_JNum [OF JNum(1)] by simp
next
  case (JStr s)
  then obtain m where "n = Suc m" by (cases n) (auto simp: quote_def)
  then show ?case using parse_value_JStr by simp
next
  case (JArr xs)
  obtain m where n: "n = Suc m" using JArr(3) by (cases n) auto
  show ?case
  proof (cases xs)
    case Nil
    then show ?thesis using n by (simp add: dquote_def)
  next
    case (Cons y ys)
    obtain c cs where st: "print_json y = c # cs" and vs: "value_start c"
      using print_json_start by blast
    have c: "c \<noteq> CHR '']''" using vs by (auto simp: value_start_def dquote_def)
    obtain d ds where cm: "commas (map print_json xs) = d # ds" and d: "d \<noteq> CHR '']''"
      using Cons st c by (cases ys) auto
    have "parse_elements m (commas (map print_json xs) @ CHR '']'' # r) = Some (xs, r)"
    proof (rule parse_elements_commas)
      show "xs \<noteq> []" using Cons by simp
      show "length (commas (map print_json xs)) < m" using JArr(3) n by simp
    qed (use JArr(1) in auto)
    then show ?thesis using n cm d by (simp add: dquote_def)
  qed
next
  case (JObj kvs)
  obtain m where n: "n = Suc m" using JObj(3) by (cases n) auto
  show ?case
  proof (cases kvs)
    case Nil
    then show ?thesis using n by (simp add: dquote_def)
  next
    case (Cons y ys)
    obtain ds where cm: "commas (map member_text kvs) = dquote # ds"
      using Cons by (cases ys) (auto simp: member_text_def quote_def)
    have d: "dquote \<noteq> CHR ''}''" by (simp add: dquote_def)
    have pm: "parse_members m (commas (map member_text kvs) @ CHR ''}'' # r) = Some (kvs, r)"
    proof (rule parse_members_commas)
      show "kvs \<noteq> []" using Cons by simp
      show "length (commas (map member_text kvs)) < m"
        using JObj(3) n by (simp add: print_json_JObj)
      fix k x n r
      assume "(k, x) \<in> set kvs" "delim r" "length (print_json x) \<le> n"
      then show "parse_value n (print_json x @ r) = Some (x, r)"
        using JObj(1) [of "(k, x)" x r n] by simp
    qed
    have "parse_value (Suc m) (CHR ''{'' # dquote # ds @ CHR ''}'' # r)
            = map_option (apfst JObj) (parse_members m (dquote # ds @ CHR ''}'' # r))"
      by (simp add: dquote_def)
    then show ?thesis using pm n cm by simp
  qed
qed

lemma read_print_json: "read_json (print_json v) = Some v"
  using parse_value_print_json [of "[]" v "length (print_json v)"]
  by (simp add: read_json_def)



lemma print_json_nonempty: "print_json v \<noteq> []"
  using print_json_start [of v] by auto

lemma example_platform_simps [simp]:
  "number_of_int example_platform i = i"
  "number_falsy example_platform i = (i = 0)"
  "number_string example_platform i = show_int i"
  "JSON_stringify example_platform v = print_json v"
  "JSON_parse example_platform (print_json v) = Inr v"
  "quoted_uuid example_platform u = None"
  by (simp_all add: example_platform_def read_print_json del: print_json.simps(1-5) print_json_JObj)



section \<open>The connection of the distributed-store driver\<close>

lemma getJobKeyByPattern_unconnected:
  "\<not> connection r \<Longrightarrow> getJobKeyByPattern pattern r = Inl TypeError"
  by (simp add: getJobKeyByPattern_def)

lemma getJobByPattern_unconnected:
  "\<not> connection r \<Longrightarrow> getJobByPattern E pattern r = Inl TypeError"
  by (simp add: getJobByPattern_def getJobKeyByPattern_unconnected)

lemma connection_setConnection: "connection (setConnection r)"
  by (simp add: setConnection_def)

lemma del_connection: "del key r = (res, r') \<Longrightarrow> connection r' = connection r"
  by (auto simp: del_def split: option.splits if_splits)

lemma markJob_connection:
  "markJob E job mark st r = (res, r') \<Longrightarrow> connection r' = connection r"
  by (auto simp: markJob_def Let_def unlock_def split: if_splits sum.splits prod.splits
      dest: del_connection)

lemma reserveJob_connection:
  "reserveJob E now job r = (res, r') \<Longrightarrow> connection r' = connection r"
  by (auto simp: reserveJob_def Let_def split: prod.splits sum.splits dest: markJob_connection)

lemma redis_getJob_connects: "connection (snd (redis_getJob E now q r))"
  by (auto simp: redis_getJob_def Let_def connection_setConnection
      split: sum.splits prod.splits dest: reserveJob_connection)

lemma redis_getJobByUuid_connects: "connection (snd (redis_getJobByUuid E now u r))"
  by (auto simp: redis_getJobByUuid_def Let_def connection_setConnection
      split: sum.splits prod.splits dest: reserveJob_connection)

text \<open>
  C10. On a driver whose \<^verbatim>\<open>#connection\<close> is still unset, \<^verbatim>\<open>getFailedJob\<close>, \<^verbatim>\<open>deleteJob\<close> and
  \<^verbatim>\<open>markJobAsFailed\<close> do not establish a connection: each dereferences the unset field and
  ends with a TypeError, the driver left as it was. \<^verbatim>\<open>storeJob\<close>, \<^verbatim>\<open>getJob\<close>, \<^verbatim>\<open>getJobByUuid\<close>
  and \<^verbatim>\<open>deleteAllJobs\<close> are the operations after which the connection is set.
\<close>

theorem unconnected_operations_raise:
  "\<not> connection r \<Longrightarrow>
     redis_getFailedJob E now q r = (Inl TypeError, r)
     \<and> redis_deleteJob jobUuid r = (Inl TypeError, r)
     \<and> redis_markJobAsFailed E now jobUuid r = (Inl TypeError, r)
     \<and> connection (snd (redis_storeJob E job r))
     \<and> connection (snd (redis_getJob E now q r))
     \<and> connection (snd (redis_getJobByUuid E now jobUuid r))
     \<and> connection (snd (redis_deleteAllJobs r))"
  by (simp add: redis_getFailedJob_def redis_deleteJob_def redis_markJobAsFailed_def
      getJobByPattern_unconnected getJobKeyByPattern_unconnected
      redis_getJob_connects redis_getJobByUuid_connects
      redis_storeJob_def redis_deleteAllJobs_def Let_def connection_setConnection)

theorem unconnected_operations_raise_witness:
  "\<not> connection \<lparr>connection = False, null_key_rejects = False, keyspace = [], locks = []\<rparr>
   \<and> redis_getFailedJob example_platform 7 ''q'' \<lparr>connection = False, null_key_rejects = False, keyspace = [], locks = []\<rparr>
       = (Inl TypeError, \<lparr>connection = False, null_key_rejects = False, keyspace = [], locks = []\<rparr>)"
  using unconnected_operations_raise
    [of "\<lparr>connection = False, null_key_rejects = False, keyspace = [], locks = []\<rparr>"
        example_platform 7 "''q''"]
  by simp



section \<open>The drivers on the example data\<close>

text \<open>
  The operations are evaluated on the example stores with the stored texts left unread:
  reading a stored job back is the theorem \<open>read_print_json\<close>.
\<close>

lemmas redis_eval =
  redis_storeJob_def redis_getJob_def redis_getJobByUuid_def redis_getFailedJob_def
  redis_deleteJob_def redis_markJobAsFailed_def reserveJob_def failJob_def markJob_def
  getJobByPattern_def getJobByKey_def getJobKeyByPattern_def del_def unlock_def setConnection_def
  kv_keys_def kv_get_def kv_del_def kv_setnx_def spread_def field_def template_def truthy_prop_def
  job_object_def timestamp_json_def Let_def bslash_def
  print_json_nonempty

lemmas sqlite3_eval =
  sqlite3_createJobsDbStructure_def sqlite3_storeJob_def sqlite3_getJob_def sqlite3_getJobByUuid_def
  sqlite3_getFailedJob_def sqlite3_deleteJob_def sqlite3_markJobAsFailed_def sqlite3_reserveJob_def
  reserve_catch_def run_def getRow_def connectionToUse_def setSharedConnection_def getNewConnection_def
  parseJobResult_def fetch_one_def write_rows_def busy_def owns_def
  where_uuid_quoted_def plain_def column_names_def lower_def dquote_def

lemma stored_redis_eq:
  "stored_redis = \<lparr>connection = True, null_key_rejects = False,
      keyspace = [(''jobs_available:q/u1'', print_json (JObj (job_object example_platform example_job)))], locks = []\<rparr>"
  by (simp add: stored_redis_def redis_storeJob_def setConnection_def fresh_redis_def example_job_def kv_setnx_def)

lemma stored_sqlite3_eq:
  "stored_sqlite3 = \<lparr>sharedConnection = Some 0, opened = 1,
      jobs = Some [\<lparr>uuid = ''u1'', queue = ''q'', payload = print_json (JObj [(''x'', JNum 1)]),
                     created_at = 100, reserved_at = None, failed_at = None\<rparr>],
      txn = None\<rparr>"
  by (simp add: stored_sqlite3_def fresh_sqlite3_def example_job_def sqlite3_eval
      del: print_json.simps(1-5) print_json_JObj)

lemma failed_sqlite3_eq:
  "failed_sqlite3 = \<lparr>sharedConnection = Some 0, opened = 2,
      jobs = Some [\<lparr>uuid = ''u1'', queue = ''q'', payload = print_json (JObj [(''x'', JNum 1)]),
                     created_at = 100, reserved_at = None, failed_at = Some 6\<rparr>],
      txn = None\<rparr>"
  by (simp add: failed_sqlite3_def stored_sqlite3_eq sqlite3_eval
      del: print_json.simps(1-5) print_json_JObj)

text \<open>The two steps of a call, taken one after the other, are \<^verbatim>\<open>getJob\<close>.\<close>

lemma getJob_step_sequential:
  "(case getJob_step E now (Called q) r of (call, r1) \<Rightarrow> getJob_step E now call r1)
     = (case redis_getJob E now q r of (res, r') \<Rightarrow> (Finished res, r'))"
  by (simp add: getJob_step_def redis_getJob_def Let_def split: sum.splits prod.splits)

text \<open>One call after the other: the second finds no available job.\<close>

lemma getJob_sequential_single_delivery:
  "fst (interleave example_platform 7 [0, 0, 1, 1] [Called ''q'', Called ''q''] stored_redis)
     = [Finished (Inr (JObj (job_object example_platform (example_job\<lparr>reserved_at := Some 7\<rparr>)))),
        Finished (Inr JNull)]"
  by (simp add: stored_redis_eq getJob_step_def redis_eval example_job_def
      del: print_json.simps(1-5) print_json_JObj)

text \<open>
  C1. No job is handed to two callers: this fails in the distributed-store driver. Two
  \<^verbatim>\<open>getJob\<close> calls on the queue of the one stored job, the second reading the job before the
  first has moved it, both return that job.
\<close>

theorem concurrent_getJob_double_delivery:
  "interleave example_platform 7 [0, 1, 0, 1] [Called ''q'', Called ''q''] stored_redis
     = ([Finished (Inr (JObj (job_object example_platform (example_job\<lparr>reserved_at := Some 7\<rparr>)))),
         Finished (Inr (JObj (job_object example_platform (example_job\<lparr>reserved_at := Some 7\<rparr>))))],
        stored_redis\<lparr>keyspace :=
          [(''jobs_reserved:q/u1'', print_json (JObj (job_object example_platform (example_job\<lparr>reserved_at := Some 7\<rparr>))))]\<rparr>)"
  by (simp add: stored_redis_eq getJob_step_def redis_eval example_job_def
      del: print_json.simps(1-5) print_json_JObj)

text \<open>
  C2. After taking the lock, \<^verbatim>\<open>#markJob\<close> is to confirm that the key still exists under the
  current-state prefix and to report no job otherwise. In the store left by a first
  reservation no key of the job exists under \<^verbatim>\<open>jobs_available\<close>, and \<^verbatim>\<open>#reserveJob\<close> of the job
  as it was read before still writes the destination key and returns the job.
\<close>

theorem reserveJob_writes_without_source_key:
  "getJobKeyByPattern ''jobs_available:*u1'' (snd (redis_getJob example_platform 7 ''q'' stored_redis)) = Inr None
   \<and> reserveJob example_platform 8 (JObj (job_object example_platform example_job)) (snd (redis_getJob example_platform 7 ''q'' stored_redis))
       = (JObj (job_object example_platform (example_job\<lparr>reserved_at := Some 8\<rparr>)),
          stored_redis\<lparr>keyspace :=
            [(''jobs_reserved:q/u1'', print_json (JObj (job_object example_platform (example_job\<lparr>reserved_at := Some 8\<rparr>))))]\<rparr>)"
  by (simp add: stored_redis_eq redis_eval example_job_def
      del: print_json.simps(1-5) print_json_JObj)

text \<open>
  The driver itself never tests the key it has looked up. With a client library that rejects
  a null key, the rejection of \<^verbatim>\<open>del\<close> is what stops the same call: no job, nothing written.
\<close>

lemma reserveJob_rejecting_client:
  "reserveJob example_platform 8 (JObj (job_object example_platform example_job))
     ((snd (redis_getJob example_platform 7 ''q'' stored_redis))\<lparr>null_key_rejects := True\<rparr>)
     = (JNull, (snd (redis_getJob example_platform 7 ''q'' stored_redis))\<lparr>null_key_rejects := True\<rparr>)"
  by (simp add: stored_redis_eq redis_eval example_job_def
      del: print_json.simps(1-5) print_json_JObj)

text \<open>
  C4. \<^verbatim>\<open>getJobByUuid\<close> is to return no job, and to write nothing, when no job has the uuid or
  the job is not Available. The distributed-store driver, asked for a uuid that no job has,
  returns an object and writes the key \<^verbatim>\<open>jobs_reserved:undefined/undefined\<close>; the relational
  driver, asked for the uuid of a Failed job, returns and reserves that job.
\<close>

theorem getJobByUuid_returns_unavailable:
  "redis_getJobByUuid example_platform 7 ''u2'' stored_redis
     = (Inr (JObj [(''reserved_at'', JNum 7), (''failed_at'', JNull)]),
        stored_redis\<lparr>keyspace :=
          [(''jobs_available:q/u1'', print_json (JObj (job_object example_platform example_job))),
           (''jobs_reserved:undefined/undefined'',
            print_json (JObj [(''reserved_at'', JNum 7), (''failed_at'', JNull)]))]\<rparr>)
   \<and> state_of (the (jobs failed_sqlite3) ! 0) = Failed
   \<and> fst (sqlite3_getJobByUuid example_platform 7 ''u1'' failed_sqlite3)
       = Inr (Some (example_job\<lparr>failed_at := Some 6\<rparr>))"
  by (simp add: stored_redis_eq failed_sqlite3_eq redis_eval sqlite3_eval example_job_def state_of_def
      del: print_json.simps(1-5) print_json_JObj)

text \<open>
  C8. \<^verbatim>\<open>deleteJob\<close> is to remove a job only when it is Reserved. The distributed-store driver
  removes a job that was stored and never reserved.
\<close>

theorem redis_deleteJob_removes_available:
  "redis_deleteJob ''u1'' stored_redis = (Inr (), stored_redis\<lparr>keyspace := []\<rparr>)"
  by (simp add: stored_redis_eq redis_eval example_job_def
      del: print_json.simps(1-5) print_json_JObj)

text \<open>
  C3. Reserving a job from the failed pool is to set \<open>reserved_at\<close> and clear \<open>failed_at\<close>. The
  relational driver's \<^verbatim>\<open>getFailedJob\<close> sets \<open>reserved_at\<close> and leaves \<open>failed_at\<close> as it was.
\<close>

theorem sqlite3_getFailedJob_keeps_failed_at:
  "jobs (snd (sqlite3_getFailedJob example_platform 7 ''q'' failed_sqlite3))
     = Some [\<lparr>uuid = ''u1'', queue = ''q'', payload = print_json (JObj [(''x'', JNum 1)]),
               created_at = 100, reserved_at = Some 7, failed_at = Some 6\<rparr>]"
  by (simp add: failed_sqlite3_eq sqlite3_eval
      del: print_json.simps(1-5) print_json_JObj)

text \<open>
  With no transaction open on the file when it begins, \<^verbatim>\<open>#reserveJob\<close> never ends with an
  error: every failure after \<^verbatim>\<open>BEGIN\<close> is rolled back and answered with no job.
\<close>

lemma reserve_catch_owner:
  "owns c db \<Longrightarrow> fst (reserve_catch E c db) = Inr None"
  by (auto simp: reserve_catch_def run_def connectionToUse_def owns_def split: option.splits prod.splits)

lemma sqlite3_reserveJob_returns_when_free:
  assumes "txn db = None"
  shows "\<exists>found. fst (sqlite3_reserveJob E now c sel db) = Inr found"
proof -
  let ?db1 = "db\<lparr>txn := Some (c, jobs db)\<rparr>"
  have b: "run E BeginExclusive (Some c) db = (Inr (), ?db1)"
    using assms by (simp add: run_def connectionToUse_def)
  have o: "owns c ?db1" by (simp add: owns_def)
  have cm: "run E Commit (Some c) d = (Inr (), d\<lparr>txn := None\<rparr>)" if "owns c d" for d
    using that by (simp add: run_def connectionToUse_def)
  have up: "\<exists>r d. run E (UpdateReservedAt now u) (Some c) ?db1 = (r, d) \<and> owns c d" for u
    by (auto simp: run_def connectionToUse_def write_rows_def busy_def owns_def split: option.splits)
  show ?thesis
  proof (cases "getRow sel (Some c) ?db1")
    case (Inl e)
    then show ?thesis using b reserve_catch_owner [OF o, where E = E] by (simp add: sqlite3_reserveJob_def)
  next
    case (Inr rowopt)
    show ?thesis
    proof (cases rowopt)
      case None
      then show ?thesis using b Inr cm [OF o] by (simp add: sqlite3_reserveJob_def)
    next
      case (Some rawJob)
      show ?thesis
      proof (cases "parseJobResult E rawJob")
        case (Inl e)
        then show ?thesis using b Inr Some reserve_catch_owner [OF o, where E = E] by (simp add: sqlite3_reserveJob_def)
      next
        case parsed: (Inr job)
        obtain r d where u: "run E (UpdateReservedAt now (uuid job)) (Some c) ?db1 = (r, d)" and od: "owns c d"
          using up by blast
        show ?thesis
          using b Inr Some parsed u cm [OF od] reserve_catch_owner [OF od, where E = E]
          by (cases r) (simp_all add: sqlite3_reserveJob_def)
      qed
    qed
  qed
qed

text \<open>
  C7. A failure inside \<^verbatim>\<open>#reserveJob\<close> is to end in a rollback and the answer no job. When
  another connection holds the file, \<^verbatim>\<open>BEGIN EXCLUSIVE\<close> is refused, the \<^verbatim>\<open>ROLLBACK\<close> of the
  \<^verbatim>\<open>catch\<close> block is refused in turn (no transaction is open on this connection), and the
  call ends with that error.
\<close>

theorem sqlite3_reserveJob_raises_when_locked:
  "fst (sqlite3_getJob example_platform 5 ''q'' (snd (run example_platform BeginExclusive (Some 1) (snd (getNewConnection stored_sqlite3)))))
     = Inl (SqliteError SQLITE_ERROR)"
  by (simp add: stored_sqlite3_eq sqlite3_eval
      del: print_json.simps(1-5) print_json_JObj)



section \<open>Storing a job twice\<close>

lemma kv_setnx_keeps:
  "kv_get key ks = Some v \<Longrightarrow> kv_get key (kv_setnx k' v' ks) = Some v"
  by (simp add: kv_get_def kv_setnx_def)

lemma run_Insert_duplicate:
  assumes "jobs db = Some rows" and "uuid new \<in> set (map uuid rows)"
  shows "\<exists>e. run E (Insert new) conn db = (Inl e, db)"
    and "txn db = None \<Longrightarrow> connectionToUse conn db \<noteq> None
           \<Longrightarrow> run E (Insert new) conn db = (Inl (SqliteError SQLITE_CONSTRAINT), db)"
  using assms
  by (auto simp: run_def write_rows_def busy_def split: option.splits)

lemma setSharedConnection_jobs [simp]: "jobs (setSharedConnection db) = jobs db"
  by (simp add: setSharedConnection_def getNewConnection_def split: option.splits)

lemma setSharedConnection_txn [simp]: "txn (setSharedConnection db) = txn db"
  by (simp add: setSharedConnection_def getNewConnection_def split: option.splits)

lemma setSharedConnection_shared: "sharedConnection (setSharedConnection db) \<noteq> None"
  by (simp add: setSharedConnection_def getNewConnection_def split: option.splits)

text \<open>
  C5. Storing a job whose uuid is already stored is to fail with a duplicate-id error and
  to leave the stored record as it is. The distributed-store driver does not fail: storing
  the stored job again completes, and changes nothing.
\<close>

theorem redis_storeJob_duplicate_without_error:
  "kv_get ''jobs_available:q/u1'' (keyspace stored_redis) \<noteq> None
   \<and> redis_storeJob example_platform example_job stored_redis = (Inr (), stored_redis)"
  by (simp add: stored_redis_eq redis_storeJob_def setConnection_def kv_setnx_def kv_get_def
      example_job_def del: print_json.simps(1-5) print_json_JObj)

text \<open>
  C5, as the code has it. When a row with the job's uuid exists, the relational driver's
  \<^verbatim>\<open>storeJob\<close> ends with an error, the primary-key error when no transaction holds the file,
  and the table is unchanged. The distributed-store driver's \<^verbatim>\<open>storeJob\<close> never ends with an
  error, and every key stored before still has its value afterwards.
\<close>

theorem storeJob_duplicate_keeps_record:
  "(jobs db = Some rows \<and> uuid job \<in> set (map uuid rows) \<longrightarrow>
      (\<exists>e. fst (sqlite3_storeJob E job db) = Inl e)
      \<and> jobs (snd (sqlite3_storeJob E job db)) = jobs db
      \<and> (txn db = None \<longrightarrow> fst (sqlite3_storeJob E job db) = Inl (SqliteError SQLITE_CONSTRAINT)))
   \<and> fst (redis_storeJob E job r) = Inr ()
   \<and> (\<forall>key v. kv_get key (keyspace r) = Some v
         \<longrightarrow> kv_get key (keyspace (snd (redis_storeJob E job r))) = Some v)"
proof (intro conjI impI allI)
  let ?new = "\<lparr>uuid = uuid job, queue = queue job, payload = JSON_stringify E (payload job),
                created_at = created_at job, reserved_at = None, failed_at = None\<rparr>"
  let ?db = "setSharedConnection db"
  assume a: "jobs db = Some rows \<and> uuid job \<in> set (map uuid rows)"
  then have j: "jobs ?db = Some rows" and u: "uuid ?new \<in> set (map uuid rows)" by simp_all
  obtain e where e: "run E (Insert ?new) None ?db = (Inl e, ?db)"
    using run_Insert_duplicate(1) [OF j u, where E = E and conn = None] by blast
  show "\<exists>e. fst (sqlite3_storeJob E job db) = Inl e"
    using e by (simp add: sqlite3_storeJob_def)
  show "jobs (snd (sqlite3_storeJob E job db)) = jobs db"
    using e by (simp add: sqlite3_storeJob_def)
  assume "txn db = None"
  then show "fst (sqlite3_storeJob E job db) = Inl (SqliteError SQLITE_CONSTRAINT)"
    using run_Insert_duplicate(2) [OF j u, where E = E and conn = None]
      setSharedConnection_shared [of db]
    by (simp add: sqlite3_storeJob_def connectionToUse_def)
next
  show "fst (redis_storeJob E job r) = Inr ()"
    by (simp add: redis_storeJob_def Let_def)
next
  fix key v
  assume "kv_get key (keyspace r) = Some v"
  then show "kv_get key (keyspace (snd (redis_storeJob E job r))) = Some v"
    by (simp add: redis_storeJob_def Let_def setConnection_def kv_setnx_keeps)
qed

theorem storeJob_duplicate_keeps_record_witness:
  "jobs stored_sqlite3 = Some (the (jobs stored_sqlite3))
   \<and> uuid example_job \<in> set (map uuid (the (jobs stored_sqlite3)))
   \<and> txn stored_sqlite3 = None
   \<and> kv_get ''jobs_available:q/u1'' (keyspace stored_redis) = Some (print_json (JObj (job_object example_platform example_job)))
   \<and> fst (sqlite3_storeJob example_platform example_job stored_sqlite3) = Inl (SqliteError SQLITE_CONSTRAINT)
   \<and> jobs (snd (sqlite3_storeJob example_platform example_job stored_sqlite3)) = jobs stored_sqlite3
   \<and> fst (redis_storeJob example_platform example_job stored_redis) = Inr ()
   \<and> kv_get ''jobs_available:q/u1'' (keyspace (snd (redis_storeJob example_platform example_job stored_redis)))
       = Some (print_json (JObj (job_object example_platform example_job)))"
proof -
  have h1: "jobs stored_sqlite3 = Some (the (jobs stored_sqlite3))
            \<and> uuid example_job \<in> set (map uuid (the (jobs stored_sqlite3)))"
    by (simp add: stored_sqlite3_eq example_job_def)
  have h2: "txn stored_sqlite3 = None"
    by (simp add: stored_sqlite3_eq)
  have h3: "kv_get ''jobs_available:q/u1'' (keyspace stored_redis)
              = Some (print_json (JObj (job_object example_platform example_job)))"
    by (simp add: stored_redis_eq kv_get_def del: print_json.simps(1-5) print_json_JObj)
  show ?thesis
    using storeJob_duplicate_keeps_record
      [of stored_sqlite3 "the (jobs stored_sqlite3)" example_job example_platform stored_redis]
      h1 h2 h3
    by blast
qed



section \<open>Handling a job\<close>

text \<open>
  C6. \<open>handle\<close>, for every handler and queue: when fetch-and-reserve yields no job, the
  result is \<open>NothingToDo\<close>, whatever the handler is and with the handler's state untouched;
  when the handler completes, the job is deleted by uuid and the handler's result returned;
  when the handler raises, the job is marked failed by uuid and that error is raised.
\<close>

theorem handleJob_outcomes:
  "(fetchAndReserve d (default_queue q) s = (None, s1) \<longrightarrow>
      handleJob d jobHandler q (s, w) = (NothingToDo, s1, w))
   \<and> (fetchAndReserve d (default_queue q) s = (Some job, s1)
        \<and> jobHandler (payload_of d job) w = (Inr result, w1) \<longrightarrow>
      handleJob d jobHandler q (s, w) = (Returned result, delete d (uuid_of d job) s1, w1))
   \<and> (fetchAndReserve d (default_queue q) s = (Some job, s1)
        \<and> jobHandler (payload_of d job) w = (Inl err, w1) \<longrightarrow>
      handleJob d jobHandler q (s, w) = (Raised err, markFailed d (uuid_of d job) s1, w1))
   \<and> (NothingToDo :: ('e, 'a) outcome) \<noteq> Returned result
   \<and> (NothingToDo :: ('e, 'a) outcome) \<noteq> Raised err"
  by (simp add: handleJob_def QueueClient_handleJob_def)

lemma contract_fetch_stored:
  "fetchAndReserve (sqlite3_contract example_platform 7) ''q'' stored_sqlite3
     = (Some example_job,
        \<lparr>sharedConnection = Some 0, opened = 2,
          jobs = Some [\<lparr>uuid = ''u1'', queue = ''q'', payload = print_json (JObj [(''x'', JNum 1)]),
                         created_at = 100, reserved_at = Some 7, failed_at = None\<rparr>],
          txn = None\<rparr>)"
  by (simp add: sqlite3_contract_def stored_sqlite3_eq sqlite3_eval example_job_def
      del: print_json.simps(1-5) print_json_JObj)

lemma contract_fetch_fresh:
  "fetchAndReserve (sqlite3_contract example_platform 7) ''default'' stored_sqlite3
     = (None, stored_sqlite3\<lparr>opened := 2\<rparr>)"
  by (simp add: sqlite3_contract_def stored_sqlite3_eq sqlite3_eval
      del: print_json.simps(1-5) print_json_JObj)

theorem handleJob_outcomes_witness:
  "fetchAndReserve (sqlite3_contract example_platform 7) (default_queue None) stored_sqlite3
       = (None, stored_sqlite3\<lparr>opened := 2\<rparr>)
   \<and> handleJob (sqlite3_contract example_platform 7) (\<lambda>p seen. (Inr (42 :: int) :: string + int, p # seen)) None
         (stored_sqlite3, [])
       = (NothingToDo, stored_sqlite3\<lparr>opened := 2\<rparr>, [])
   \<and> fst (fetchAndReserve (sqlite3_contract example_platform 7) (default_queue (Some ''q'')) stored_sqlite3)
       = Some example_job
   \<and> fst (handleJob (sqlite3_contract example_platform 7) (\<lambda>p seen. (Inr (42 :: int) :: string + int, p # seen))
         (Some ''q'') (stored_sqlite3, []))
       = Returned 42
   \<and> jobs (fst (snd (handleJob (sqlite3_contract example_platform 7)
         (\<lambda>p seen. (Inr (42 :: int) :: string + int, p # seen)) (Some ''q'') (stored_sqlite3, []))))
       = Some []
   \<and> fst (handleJob (sqlite3_contract example_platform 7) (\<lambda>p seen. (Inl ''boom'' :: string + int, p # seen))
         (Some ''q'') (stored_sqlite3, []))
       = Raised ''boom''
   \<and> map state_of (the (jobs (fst (snd (handleJob (sqlite3_contract example_platform 7)
         (\<lambda>p seen. (Inl ''boom'' :: string + int, p # seen)) (Some ''q'') (stored_sqlite3, []))))))
       = [Failed]"
  using
    handleJob_outcomes [of "sqlite3_contract example_platform 7" None stored_sqlite3 "stored_sqlite3\<lparr>opened := 2\<rparr>"
      "\<lambda>p seen. (Inr (42 :: int) :: string + int, p # seen)" "[]"]
    handleJob_outcomes [of "sqlite3_contract example_platform 7" "Some ''q''" stored_sqlite3 _
      "\<lambda>p seen. (Inr (42 :: int) :: string + int, p # seen)" "[]" example_job 42 "[payload example_job]"]
    handleJob_outcomes [of "sqlite3_contract example_platform 7" "Some ''q''" stored_sqlite3 _
      "\<lambda>p seen. (Inl ''boom'' :: string + int, p # seen)" "[]" example_job _ "[payload example_job]" "''boom''"]
    contract_fetch_stored contract_fetch_fresh
  by (simp add: default_queue_def sqlite3_contract_def sqlite3_eval state_of_def example_job_def
      del: print_json.simps(1-5) print_json_JObj)



section \<open>The payload from store to fetch\<close>

subsection \<open>The relational driver\<close>

lemma table_ok_update:
  "table_ok E u p (Some rows) \<Longrightarrow> (\<And>r. payload (f r) = payload r \<and> uuid (f r) = uuid r)
     \<Longrightarrow> table_ok E u p (Some (map f rows))"
  by (simp add: table_ok_def list_all_iff)

lemma table_ok_filter:
  "table_ok E u p (Some rows) \<Longrightarrow> table_ok E u p (Some (filter P rows))"
  by (simp add: table_ok_def list_all_iff)

lemma write_rows_sound:
  assumes "sound E u p db" and "write_rows c db f = (res, db')"
    and "\<And>rows rows'. table_ok E u p (Some rows) \<Longrightarrow> f rows = Inr rows' \<Longrightarrow> table_ok E u p (Some rows')"
  shows "sound E u p db'"
  using assms
  by (auto simp: write_rows_def sound_def split: if_splits option.splits sum.splits)

lemma execute_sound:
  assumes "sound E u p db" and "execute E stmt c db = (res, db')"
    and "\<And>new. stmt = Insert new \<Longrightarrow> uuid new = u \<Longrightarrow> payload new = JSON_stringify E p"
  shows "sound E u p db'"
proof (cases stmt)
  case BeginExclusive
  then show ?thesis using assms(1,2)
    by (auto simp: sound_def split: option.splits if_splits)
next
  case Commit
  then show ?thesis using assms(1,2)
    by (auto simp: sound_def split: option.splits if_splits)
next
  case Rollback
  then show ?thesis using assms(1,2)
    by (auto simp: sound_def split: option.splits if_splits)
next
  case CreateTable
  then show ?thesis using assms(1,2)
    by (auto simp: sound_def table_ok_def split: option.splits if_splits)
next
  case (Insert new)
  show ?thesis
  proof (rule write_rows_sound [OF assms(1)])
    show "write_rows c db (\<lambda>rows. if uuid new \<in> set (map uuid rows) then Inl SQLITE_CONSTRAINT
                                   else Inr (rows @ [new])) = (res, db')"
      using assms(2) Insert by simp
    show "table_ok E u p (Some rows')"
      if "table_ok E u p (Some rows)"
        and "(if uuid new \<in> set (map uuid rows) then Inl SQLITE_CONSTRAINT else Inr (rows @ [new])) = Inr rows'"
      for rows rows'
      using that assms(3) [OF Insert] by (auto simp: table_ok_def split: if_splits)
  qed
next
  case (UpdateReservedAt t v)
  show ?thesis
    by (rule write_rows_sound [OF assms(1) assms(2) [unfolded UpdateReservedAt execute.simps]])
       (auto intro: table_ok_update split: option.splits)
next
  case (DeleteReserved v)
  show ?thesis
    by (rule write_rows_sound [OF assms(1) assms(2) [unfolded DeleteReserved execute.simps]])
       (auto intro: table_ok_filter)
next
  case (UpdateFailedAt t v)
  show ?thesis
    by (rule write_rows_sound [OF assms(1) assms(2) [unfolded UpdateFailedAt execute.simps]])
       (auto intro: table_ok_update)
qed


lemma run_sound:
  assumes "sound E u p db" and "run E stmt conn db = (res, db')"
    and "\<And>new. stmt = Insert new \<Longrightarrow> uuid new = u \<Longrightarrow> payload new = JSON_stringify E p"
  shows "sound E u p db'"
  using assms
  by (auto simp: run_def split: option.splits prod.splits sum.splits dest: execute_sound)



lemma reserve_catch_sound:
  "sound E u p db \<Longrightarrow> reserve_catch E c db = (res, db') \<Longrightarrow> sound E u p db'"
  by (auto simp: reserve_catch_def split: prod.splits sum.splits dest: run_sound)





















subsection \<open>The distributed-store driver\<close>

















lemma setConnection_keyspace [simp]: "keyspace (setConnection r) = keyspace r"
  by (simp add: setConnection_def)








subsection \<open>Both drivers\<close>





end
